theory Spec2Isabelle
  imports Main "HOL-Library.AList" "HOL-Library.Sublist"
begin

section \<open>Python values used by the contact manager\<close>

text \<open>
  A Python \<open>str\<close> is a sequence of Unicode code points, so it is modelled as a list of
  code points (\<open>nat\<close>). \<open>lit\<close> turns an ASCII literal into such a list.
\<close>

type_synonym pystr = "nat list"

definition lit :: "string \<Rightarrow> pystr" where
  "lit s = map of_char s"

text \<open>
  The exceptions the program can raise, each with the message that \<open>str(e)\<close> yields.
\<close>

datatype error =
    ValueError pystr
  | TypeError pystr
  | IndexError pystr
  | AttributeError pystr

fun error_str :: "error \<Rightarrow> pystr" where
  "error_str (ValueError m) = m"
| "error_str (TypeError m) = m"
| "error_str (IndexError m) = m"
| "error_str (AttributeError m) = m"

subsection \<open>Character classes of the Python runtime\<close>

text \<open>
  \<open>decimal_zeros\<close> lists the code point of the digit zero of every run of ten decimal
  digits (Unicode category Nd, Unicode 14.0.0 as shipped with CPython 3.11). These are
  the characters that \<open>\d\<close> of the \<open>re\<close> module matches and that \<open>int()\<close> converts.
\<close>

definition decimal_zeros :: "nat list" where
  "decimal_zeros =
    [48, 1632, 1776, 1984, 2406, 2534, 2662, 2790, 2918, 3046, 3174, 3302, 3430, 3558,
     3664, 3792, 3872, 4160, 4240, 6112, 6160, 6470, 6608, 6784, 6800, 6992, 7088, 7232,
     7248, 42528, 43216, 43264, 43472, 43504, 43600, 44016, 65296, 66720, 68912, 69734,
     69872, 69942, 70096, 70384, 70736, 70864, 71248, 71360, 71472, 71904, 72016, 72784,
     73040, 73120, 92768, 92864, 93008, 120782, 120792, 120802, 120812, 120822, 123200,
     123632, 125264, 130032]"

definition decimal_value :: "nat \<Rightarrow> nat option" where
  "decimal_value c =
     map_option (\<lambda>z. c - z) (find (\<lambda>z. z \<le> c \<and> c < z + 10) decimal_zeros)"

definition isdecimal_char :: "nat \<Rightarrow> bool" where
  "isdecimal_char c = (decimal_value c \<noteq> None)"

text \<open>
  \<open>digit_ranges\<close> are the inclusive code point ranges on which \<open>str.isdigit\<close> is true
  for a single character: the decimal digits and the other characters with the Unicode
  property Digit (superscripts, subscripts, circled digits and so on).
\<close>

definition digit_ranges :: "(nat \<times> nat) list" where
  "digit_ranges =
    [(48, 57), (178, 179), (185, 185), (1632, 1641), (1776, 1785), (1984, 1993),
     (2406, 2415), (2534, 2543), (2662, 2671), (2790, 2799), (2918, 2927), (3046, 3055),
     (3174, 3183), (3302, 3311), (3430, 3439), (3558, 3567), (3664, 3673), (3792, 3801),
     (3872, 3881), (4160, 4169), (4240, 4249), (4969, 4977), (6112, 6121), (6160, 6169),
     (6470, 6479), (6608, 6618), (6784, 6793), (6800, 6809), (6992, 7001), (7088, 7097),
     (7232, 7241), (7248, 7257), (8304, 8304), (8308, 8313), (8320, 8329), (9312, 9320),
     (9332, 9340), (9352, 9360), (9450, 9450), (9461, 9469), (9471, 9471), (10102, 10110),
     (10112, 10120), (10122, 10130), (42528, 42537), (43216, 43225), (43264, 43273),
     (43472, 43481), (43504, 43513), (43600, 43609), (44016, 44025), (65296, 65305),
     (66720, 66729), (68160, 68163), (68912, 68921), (69216, 69224), (69714, 69722),
     (69734, 69743), (69872, 69881), (69942, 69951), (70096, 70105), (70384, 70393),
     (70736, 70745), (70864, 70873), (71248, 71257), (71360, 71369), (71472, 71481),
     (71904, 71913), (72016, 72025), (72784, 72793), (73040, 73049), (73120, 73129),
     (92768, 92777), (92864, 92873), (93008, 93017), (120782, 120831), (123200, 123209),
     (123632, 123641), (125264, 125273), (127232, 127242), (130032, 130041)]"

definition in_ranges :: "(nat \<times> nat) list \<Rightarrow> nat \<Rightarrow> bool" where
  "in_ranges rs c = list_ex (\<lambda>r. fst r \<le> c \<and> c \<le> snd r) rs"

definition isdigit_char :: "nat \<Rightarrow> bool" where
  "isdigit_char c = in_ranges digit_ranges c"

text \<open>The whitespace characters, which \<open>str.strip()\<close> removes and \<open>str.isspace\<close> accepts.\<close>

definition space_ranges :: "(nat \<times> nat) list" where
  "space_ranges =
    [(9, 13), (28, 32), (133, 133), (160, 160), (5760, 5760), (8192, 8202), (8232, 8233),
     (8239, 8239), (8287, 8287), (12288, 12288)]"

definition isspace_char :: "nat \<Rightarrow> bool" where
  "isspace_char c = in_ranges space_ranges c"

text \<open>\<open>str.isdigit()\<close>: at least one character, and every character is a digit.\<close>

definition isdigit :: "pystr \<Rightarrow> bool" where
  "isdigit s = (s \<noteq> [] \<and> list_all isdigit_char s)"

text \<open>\<open>str.strip()\<close> without argument.\<close>

definition strip :: "pystr \<Rightarrow> pystr" where
  "strip s = rev (dropWhile isspace_char (rev (dropWhile isspace_char s)))"

text \<open>\<open>sep.join(parts)\<close>.\<close>

fun join :: "pystr \<Rightarrow> pystr list \<Rightarrow> pystr" where
  "join sep [] = []"
| "join sep [x] = x"
| "join sep (x # y # ys) = x @ sep @ join sep (y # ys)"

section \<open>Fields\<close>

text \<open>
  \<open>Name\<close>, \<open>Phone\<close> and \<open>Birthday\<close> are the three subclasses of \<open>Field\<close>; each holds
  one attribute \<open>value\<close>. The functions \<open>Name_init\<close>, \<open>Phone_init\<close> and
  \<open>Birthday_init\<close> are their constructors, which raise \<open>ValueError\<close> on bad input.
\<close>

datatype Name = Name (name_value: pystr)

datatype Phone = Phone (phone_value: pystr)

definition Name_init :: "pystr \<Rightarrow> error + Name" where
  "Name_init v =
     (if strip v = [] then Inl (ValueError (lit ''Name cannot be empty.''))
      else Inr (Name v))"

definition Phone_init :: "pystr \<Rightarrow> error + Phone" where
  "Phone_init v =
     (if \<not> isdigit v \<or> length v \<noteq> 10
      then Inl (ValueError (lit ''Phone number must be 10 digits.''))
      else Inr (Phone v))"

section \<open>Calendar dates\<close>

text \<open>
  \<open>datetime.date\<close> and \<open>datetime.datetime\<close> are different Python types. A
  \<open>datetime\<close> produced by \<open>strptime\<close> with the format \<open>%d.%m.%Y\<close> has the time
  00:00:00, and nothing in the program changes it, so only year, month and day are kept.
\<close>

datatype date = Date (d_year: nat) (d_month: nat) (d_day: nat)

datatype datetime = DateTime (dt_year: nat) (dt_month: nat) (dt_day: nat)

definition is_leap :: "nat \<Rightarrow> bool" where
  "is_leap y = (y mod 4 = 0 \<and> (y mod 100 \<noteq> 0 \<or> y mod 400 = 0))"

definition days_in_month :: "nat \<Rightarrow> nat \<Rightarrow> nat" where
  "days_in_month y m =
     (if m = 2 then (if is_leap y then 29 else 28)
      else if m = 4 \<or> m = 6 \<or> m = 9 \<or> m = 11 then 30 else 31)"

definition days_before_year :: "nat \<Rightarrow> nat" where
  "days_before_year y = (y - 1) * 365 + (y - 1) div 4 - (y - 1) div 100 + (y - 1) div 400"

definition days_before_month :: "nat \<Rightarrow> nat \<Rightarrow> nat" where
  "days_before_month y m =
     [0, 31, 59, 90, 120, 151, 181, 212, 243, 273, 304, 334] ! (m - 1)
       + (if m > 2 \<and> is_leap y then 1 else 0)"

definition ymd2ord :: "nat \<Rightarrow> nat \<Rightarrow> nat \<Rightarrow> nat" where
  "ymd2ord y m d = days_before_year y + days_before_month y m + d"

text \<open>The decimal rendering of a number, as \<open>str(n)\<close> gives it.\<close>

fun str_nat :: "nat \<Rightarrow> pystr" where
  "str_nat n = (if n < 10 then [48 + n] else str_nat (n div 10) @ [48 + n mod 10])"

declare str_nat.simps [simp del]

text \<open>
  The range check that every \<open>date\<close> and \<open>datetime\<close> constructor performs; \<open>None\<close>
  means that the fields are accepted.
\<close>

definition check_date_fields :: "nat \<Rightarrow> nat \<Rightarrow> nat \<Rightarrow> error option" where
  "check_date_fields y m d =
     (if \<not> (1 \<le> y \<and> y \<le> 9999)
        then Some (ValueError (lit ''year '' @ str_nat y @ lit '' is out of range''))
      else if \<not> (1 \<le> m \<and> m \<le> 12)
        then Some (ValueError (lit ''month must be in 1..12''))
      else if \<not> (1 \<le> d \<and> d \<le> days_in_month y m)
        then Some (ValueError (lit ''day is out of range for month''))
      else None)"

text \<open>\<open>dt.replace(year=y)\<close> builds a new \<open>datetime\<close> and so checks the fields again.\<close>

definition replace_year :: "datetime \<Rightarrow> nat \<Rightarrow> error + datetime" where
  "replace_year dt y =
     (case check_date_fields y (dt_month dt) (dt_day dt) of
        Some e \<Rightarrow> Inl e
      | None \<Rightarrow> Inr (DateTime y (dt_month dt) (dt_day dt)))"

text \<open>
  The operands of \<open><\<close> and \<open>-\<close> in \<open>get_upcoming_birthdays\<close> are Python objects whose
  type is only known at run time. Both operators work on two dates or on two datetimes
  and raise \<open>TypeError\<close> when one operand is a \<open>datetime\<close> and the other a \<open>date\<close>.
  \<open>py_sub_days a b\<close> is \<open>(a - b).days\<close>.
\<close>

datatype pyval = PDate date | PDateTime datetime

definition quoted :: "pystr \<Rightarrow> pystr" where
  "quoted s = [39] @ s @ [39]"

definition cmp_error :: "pystr" where
  "cmp_error = lit ''can'' @ [39] @ lit ''t compare datetime.datetime to datetime.date''"

definition sub_error :: "pystr \<Rightarrow> pystr \<Rightarrow> pystr" where
  "sub_error a b =
     lit ''unsupported operand type(s) for -: '' @ quoted a @ lit '' and '' @ quoted b"

fun py_lt :: "pyval \<Rightarrow> pyval \<Rightarrow> error + bool" where
  "py_lt (PDate (Date y m d)) (PDate (Date y' m' d')) =
     Inr (ymd2ord y m d < ymd2ord y' m' d')"
| "py_lt (PDateTime (DateTime y m d)) (PDateTime (DateTime y' m' d')) =
     Inr (ymd2ord y m d < ymd2ord y' m' d')"
| "py_lt (PDateTime a) (PDate b) = Inl (TypeError cmp_error)"
| "py_lt (PDate a) (PDateTime b) = Inl (TypeError cmp_error)"

fun py_sub_days :: "pyval \<Rightarrow> pyval \<Rightarrow> error + int" where
  "py_sub_days (PDate (Date y m d)) (PDate (Date y' m' d')) =
     Inr (int (ymd2ord y m d) - int (ymd2ord y' m' d'))"
| "py_sub_days (PDateTime (DateTime y m d)) (PDateTime (DateTime y' m' d')) =
     Inr (int (ymd2ord y m d) - int (ymd2ord y' m' d'))"
| "py_sub_days (PDateTime a) (PDate b) =
     Inl (TypeError (sub_error (lit ''datetime.datetime'') (lit ''datetime.date'')))"
| "py_sub_days (PDate a) (PDateTime b) =
     Inl (TypeError (sub_error (lit ''datetime.date'') (lit ''datetime.datetime'')))"

subsection \<open>Parsing and rendering with the format \<open>%d.%m.%Y\<close>\<close>

text \<open>
  \<open>strptime\<close> compiles the format to the regular expression
  \<^verbatim>\<open>(?P<d>3[0-1]|[1-2]\d|0[1-9]|[1-9]| [1-9])\.(?P<m>1[0-2]|0[1-9]|[1-9])\.(?P<Y>\d\d\d\d)\<close>,
  matches it at the start of the input and then requires that nothing is left over.
  Each matcher returns the ways in which it can match a prefix, in the order in which
  the regular expression engine tries them, each with the matched text and the rest.
\<close>

definition in_range :: "nat \<Rightarrow> nat \<Rightarrow> nat \<Rightarrow> bool" where
  "in_range lo hi c = (lo \<le> c \<and> c \<le> hi)"

fun re_one :: "(nat \<Rightarrow> bool) \<Rightarrow> pystr \<Rightarrow> (pystr \<times> pystr) list" where
  "re_one p (a # r) = (if p a then [([a], r)] else [])"
| "re_one p [] = []"

fun re_two :: "(nat \<Rightarrow> bool) \<Rightarrow> (nat \<Rightarrow> bool) \<Rightarrow> pystr \<Rightarrow> (pystr \<times> pystr) list" where
  "re_two p q (a # b # r) = (if p a \<and> q b then [([a, b], r)] else [])"
| "re_two p q [a] = []"
| "re_two p q [] = []"

definition re_day :: "pystr \<Rightarrow> (pystr \<times> pystr) list" where
  "re_day s =
     re_two (in_range 51 51) (in_range 48 49) s
     @ re_two (in_range 49 50) isdecimal_char s
     @ re_two (in_range 48 48) (in_range 49 57) s
     @ re_one (in_range 49 57) s
     @ re_two (in_range 32 32) (in_range 49 57) s"

definition re_month :: "pystr \<Rightarrow> (pystr \<times> pystr) list" where
  "re_month s =
     re_two (in_range 49 49) (in_range 48 50) s
     @ re_two (in_range 48 48) (in_range 49 57) s
     @ re_one (in_range 49 57) s"

fun re_year :: "pystr \<Rightarrow> (pystr \<times> pystr) list" where
  "re_year (a # b # c # d # r) =
     (if isdecimal_char a \<and> isdecimal_char b \<and> isdecimal_char c \<and> isdecimal_char d
      then [([a, b, c, d], r)] else [])"
| "re_year s = []"

fun re_dot :: "pystr \<Rightarrow> pystr list" where
  "re_dot (c # r) = (if c = 46 then [r] else [])"
| "re_dot [] = []"

definition re_match :: "pystr \<Rightarrow> (pystr \<times> pystr \<times> pystr \<times> pystr) list" where
  "re_match s =
     List.bind (re_day s) (\<lambda>(d, r1).
     List.bind (re_dot r1) (\<lambda>r2.
     List.bind (re_month r2) (\<lambda>(m, r3).
     List.bind (re_dot r3) (\<lambda>r4.
     List.bind (re_year r4) (\<lambda>(y, r5). [(d, m, y, r5)])))))"

text \<open>
  \<open>int()\<close> on a matched group: the group holds decimal digits, after one leading space
  in the last alternative of the day. A character without a decimal value cannot occur
  in a group; it would count as 0 here.
\<close>

definition group_int :: "pystr \<Rightarrow> nat" where
  "group_int g =
     foldl (\<lambda>n c. 10 * n + (case decimal_value c of Some v \<Rightarrow> v | None \<Rightarrow> 0)) 0
       (dropWhile (\<lambda>c. c = 32) g)"

text \<open>
  \<open>datetime.strptime(s, '%d.%m.%Y')\<close>. The messages of the two matching failures
  quote the input in Python; they are shortened here, and \<open>Birthday_init\<close> replaces
  them in any case.
\<close>

definition strptime :: "pystr \<Rightarrow> error + datetime" where
  "strptime s =
     (case re_match s of
        [] \<Rightarrow> Inl (ValueError (lit ''time data does not match format''))
      | (d, m, y, rest) # other \<Rightarrow>
          if rest \<noteq> [] then Inl (ValueError (lit ''unconverted data remains''))
          else (case check_date_fields (group_int y) (group_int m) (group_int d) of
                  Some e \<Rightarrow> Inl e
                | None \<Rightarrow> Inr (DateTime (group_int y) (group_int m) (group_int d))))"

text \<open>
  \<open>dt.strftime('%d.%m.%Y')\<close>. \<open>%d\<close> and \<open>%m\<close> are two digits with a leading zero.
  \<open>%Y\<close> is rendered by the C library of the platform: glibc prints a year below 1000
  without leading zeros, other C libraries pad it to four digits. The flag \<open>pad\<close> says
  whether the platform pads.
\<close>

definition pad2 :: "nat \<Rightarrow> pystr" where
  "pad2 n = (if n < 10 then 48 # str_nat n else str_nat n)"

definition pad4 :: "nat \<Rightarrow> pystr" where
  "pad4 n = replicate (4 - length (str_nat n)) 48 @ str_nat n"

definition fmt_year :: "bool \<Rightarrow> nat \<Rightarrow> pystr" where
  "fmt_year pad y = (if pad then pad4 y else str_nat y)"

definition strftime :: "bool \<Rightarrow> datetime \<Rightarrow> pystr" where
  "strftime pad dt =
     pad2 (dt_day dt) @ [46] @ pad2 (dt_month dt) @ [46] @ fmt_year pad (dt_year dt)"

datatype Birthday = Birthday (birthday_value: datetime)

definition Birthday_init :: "pystr \<Rightarrow> error + Birthday" where
  "Birthday_init v =
     (case strptime v of
        Inl (ValueError m) \<Rightarrow> Inl (ValueError (lit ''Invalid date format. Use DD.MM.YYYY''))
      | Inl e \<Rightarrow> Inl e
      | Inr dt \<Rightarrow> Inr (Birthday dt))"

definition Birthday_str :: "bool \<Rightarrow> Birthday \<Rightarrow> pystr" where
  "Birthday_str pad b = strftime pad (birthday_value b)"

section \<open>Record\<close>

text \<open>
  One contact: its name, its phones in insertion order and an optional birthday. The
  methods mutate the object; here each returns the record after the call, or the
  exception that the call raises (the record is then unchanged).
\<close>

record Record =
  name :: Name
  phones :: "Phone list"
  birthday :: "Birthday option"

definition Record_init :: "pystr \<Rightarrow> error + Record" where
  "Record_init n =
     (case Name_init n of
        Inl e \<Rightarrow> Inl e
      | Inr nm \<Rightarrow> Inr \<lparr>name = nm, phones = [], birthday = None\<rparr>)"

definition add_phone :: "pystr \<Rightarrow> Record \<Rightarrow> error + Record" where
  "add_phone phone r =
     (case Phone_init phone of
        Inl e \<Rightarrow> Inl e
      | Inr p \<Rightarrow> Inr (r\<lparr>phones := phones r @ [p]\<rparr>))"

definition remove_phone :: "pystr \<Rightarrow> Record \<Rightarrow> Record" where
  "remove_phone phone r = r\<lparr>phones := filter (\<lambda>p. phone_value p \<noteq> phone) (phones r)\<rparr>"

text \<open>
  The loop of \<open>edit_phone\<close>: the first phone whose value equals \<open>old_phone\<close> gets
  \<open>new_phone\<close> assigned to its attribute \<open>value\<close>, without going through the
  constructor of \<open>Phone\<close>; \<open>None\<close> when the loop ends without a match.
\<close>

fun edit_loop :: "pystr \<Rightarrow> pystr \<Rightarrow> Phone list \<Rightarrow> Phone list option" where
  "edit_loop old_phone new_phone [] = None"
| "edit_loop old_phone new_phone (p # ps) =
     (if phone_value p = old_phone then Some (Phone new_phone # ps)
      else map_option (\<lambda>ps'. p # ps') (edit_loop old_phone new_phone ps))"

definition edit_phone :: "pystr \<Rightarrow> pystr \<Rightarrow> Record \<Rightarrow> error + Record" where
  "edit_phone old_phone new_phone r =
     (case edit_loop old_phone new_phone (phones r) of
        Some ps \<Rightarrow> Inr (r\<lparr>phones := ps\<rparr>)
      | None \<Rightarrow> Inl (ValueError (lit ''Old phone number not found.'')))"

definition find_phone :: "pystr \<Rightarrow> Record \<Rightarrow> Phone option" where
  "find_phone phone r = find (\<lambda>p. phone_value p = phone) (phones r)"

definition add_birthday :: "pystr \<Rightarrow> Record \<Rightarrow> error + Record" where
  "add_birthday b r =
     (case Birthday_init b of
        Inl e \<Rightarrow> Inl e
      | Inr bd \<Rightarrow> Inr (r\<lparr>birthday := Some bd\<rparr>))"

definition Record_str :: "bool \<Rightarrow> Record \<Rightarrow> pystr" where
  "Record_str pad r =
     lit ''Contact name: '' @ name_value (name r) @ lit '', phones: ''
       @ join (lit ''; '') (map phone_value (phones r))
       @ (case birthday r of
            None \<Rightarrow> []
          | Some b \<Rightarrow> lit '', birthday: '' @ Birthday_str pad b)"

section \<open>AddressBook\<close>

text \<open>
  The book is a \<open>UserDict\<close> from name to record. A Python dict keeps its keys in
  insertion order and keeps the position of a key whose value is replaced, which is what
  an association list with \<open>AList.update\<close> does. In a dict every key occurs once:
  \<open>distinct (map fst book)\<close>.
\<close>

type_synonym AddressBook = "(pystr \<times> Record) list"

definition add_record :: "Record \<Rightarrow> AddressBook \<Rightarrow> AddressBook" where
  "add_record r book = AList.update (name_value (name r)) r book"

definition find_record :: "pystr \<Rightarrow> AddressBook \<Rightarrow> Record option" where
  "find_record n book = map_of book n"

definition delete_record :: "pystr \<Rightarrow> AddressBook \<Rightarrow> AddressBook" where
  "delete_record n book = (if map_of book n \<noteq> None then AList.delete n book else book)"

definition AddressBook_str :: "bool \<Rightarrow> AddressBook \<Rightarrow> pystr" where
  "AddressBook_str pad book = join [10] (map (\<lambda>e. Record_str pad (snd e)) book)"

text \<open>
  \<open>get_upcoming_birthdays\<close> reads the clock; \<open>today\<close> is that reading, a
  \<open>datetime.date\<close>. The birthday of a record is a \<open>datetime.datetime\<close>, and so is
  \<open>birthday_this_year\<close>. Each element of the result is a dict with the keys
  \<open>name\<close> and \<open>birthday\<close>.
\<close>

datatype upcoming = Upcoming (u_name: pystr) (u_birthday: pystr)

fun upcoming_loop ::
  "bool \<Rightarrow> date \<Rightarrow> Record list \<Rightarrow> upcoming list \<Rightarrow> error + upcoming list" where
  "upcoming_loop pad today [] acc = Inr acc"
| "upcoming_loop pad today (r # rs) acc =
     (case birthday r of
        None \<Rightarrow> upcoming_loop pad today rs acc
      | Some b \<Rightarrow>
          (case replace_year (birthday_value b) (d_year today) of
             Inl e \<Rightarrow> Inl e
           | Inr this_year \<Rightarrow>
               (case py_lt (PDateTime this_year) (PDate today) of
                  Inl e \<Rightarrow> Inl e
                | Inr passed \<Rightarrow>
                    (case (if passed then replace_year this_year (d_year today + 1)
                           else Inr this_year) of
                       Inl e \<Rightarrow> Inl e
                     | Inr occurrence \<Rightarrow>
                         (case py_sub_days (PDateTime occurrence) (PDate today) of
                            Inl e \<Rightarrow> Inl e
                          | Inr days \<Rightarrow>
                              if 0 \<le> days \<and> days \<le> 7
                              then upcoming_loop pad today rs
                                     (acc @ [Upcoming (name_value (name r))
                                                      (strftime pad occurrence)])
                              else upcoming_loop pad today rs acc)))))"

definition get_upcoming_birthdays :: "bool \<Rightarrow> date \<Rightarrow> AddressBook \<Rightarrow> error + upcoming list" where
  "get_upcoming_birthdays pad today book = upcoming_loop pad today (map snd book) []"

section \<open>Command handlers\<close>

text \<open>
  A handler takes the argument list and the book and returns a Python value: a string,
  or \<open>None\<close> for the two handlers that return the result of a mutating method. In the
  model a handler yields the returned value and the book after the call, or the exception
  that escapes from it. No handler changes the book before it raises.
\<close>

datatype pyret = RStr pystr | RNone

type_synonym handler = "pystr list \<Rightarrow> AddressBook \<Rightarrow> error + (pyret \<times> AddressBook)"

text \<open>The decorator: any exception of the wrapped function becomes its message.\<close>

definition input_error :: "handler \<Rightarrow> handler" where
  "input_error func args book =
     (case func args book of
        Inl e \<Rightarrow> Inr (RStr (error_str e), book)
      | Inr res \<Rightarrow> Inr res)"

text \<open>\<open>args[i]\<close>.\<close>

definition arg :: "pystr list \<Rightarrow> nat \<Rightarrow> error + pystr" where
  "arg args i =
     (if i < length args then Inr (args ! i)
      else Inl (IndexError (lit ''list index out of range'')))"

text \<open>
  The three decorated handlers. The source names them \<open>add_birthday\<close>,
  \<open>show_birthday\<close> and \<open>birthdays\<close>; the suffix keeps the first apart from the
  method of \<open>Record\<close>.
\<close>

definition add_birthday_cmd :: handler where
  "add_birthday_cmd = input_error (\<lambda>args book.
     (case args of
        [n, b] \<Rightarrow>
          (case find_record n book of
             Some r \<Rightarrow>
               (case add_birthday b r of
                  Inl e \<Rightarrow> Inl e
                | Inr r' \<Rightarrow>
                    Inr (RStr (lit ''Added birthday '' @ b @ lit '' for '' @ n),
                         AList.update n r' book))
           | None \<Rightarrow> Inr (RStr (lit ''Contact '' @ n @ lit '' not found''), book))
      | _ \<Rightarrow> Inl (ValueError (lit ''Usage: add-birthday [name] [birthday]''))))"

definition show_birthday_cmd :: "bool \<Rightarrow> handler" where
  "show_birthday_cmd pad = input_error (\<lambda>args book.
     (case args of
        [n] \<Rightarrow>
          (case find_record n book of
             Some r \<Rightarrow>
               (case birthday r of
                  Some b \<Rightarrow>
                    Inr (RStr (n @ [39] @ lit ''s birthday is '' @ Birthday_str pad b), book)
                | None \<Rightarrow>
                    Inr (RStr (lit ''Contact '' @ n @ lit '' not found or no birthday set''),
                         book))
           | None \<Rightarrow>
               Inr (RStr (lit ''Contact '' @ n @ lit '' not found or no birthday set''), book))
      | _ \<Rightarrow> Inl (ValueError (lit ''Usage: show-birthday [name]''))))"

definition birthdays_cmd :: "bool \<Rightarrow> date \<Rightarrow> handler" where
  "birthdays_cmd pad today = input_error (\<lambda>args book.
     (case get_upcoming_birthdays pad today book of
        Inl e \<Rightarrow> Inl e
      | Inr up \<Rightarrow>
          if up \<noteq> []
          then Inr (RStr (join [10] (map (\<lambda>i. u_name i @ lit '': '' @ u_birthday i) up)), book)
          else Inr (RStr (lit ''No upcoming birthdays''), book)))"

text \<open>The handlers that the command table gives as undecorated lambdas.\<close>

definition add_cmd :: handler where
  "add_cmd args book =
     (case arg args 0 of
        Inl e \<Rightarrow> Inl e
      | Inr n \<Rightarrow>
          (case Record_init n of
             Inl e \<Rightarrow> Inl e
           | Inr r \<Rightarrow> Inr (RNone, add_record r book)))"

definition change_cmd :: handler where
  "change_cmd args book =
     (case arg args 0 of
        Inl e \<Rightarrow> Inl e
      | Inr n \<Rightarrow>
          (case find_record n book of
             None \<Rightarrow>
               Inl (AttributeError (quoted (lit ''NoneType'') @ lit '' object has no attribute ''
                                      @ quoted (lit ''edit_phone'')))
           | Some r \<Rightarrow>
               (case arg args 1 of
                  Inl e \<Rightarrow> Inl e
                | Inr old_phone \<Rightarrow>
                    (case arg args 2 of
                       Inl e \<Rightarrow> Inl e
                     | Inr new_phone \<Rightarrow>
                         (case edit_phone old_phone new_phone r of
                            Inl e \<Rightarrow> Inl e
                          | Inr r' \<Rightarrow> Inr (RNone, AList.update n r' book))))))"

definition phone_cmd :: "bool \<Rightarrow> handler" where
  "phone_cmd pad args book =
     (case arg args 0 of
        Inl e \<Rightarrow> Inl e
      | Inr n \<Rightarrow>
          (case find_record n book of
             None \<Rightarrow> Inr (RStr (lit ''None''), book)
           | Some r \<Rightarrow> Inr (RStr (Record_str pad r), book)))"

definition all_cmd :: "bool \<Rightarrow> handler" where
  "all_cmd pad args book = Inr (RStr (AddressBook_str pad book), book)"

definition hello_cmd :: handler where
  "hello_cmd args book = Inr (RStr (lit ''Hello! How can I assist you?''), book)"

definition goodbye_cmd :: handler where
  "goodbye_cmd args book = Inr (RStr (lit ''Goodbye!''), book)"

text \<open>The command table, in the order of the source, and the dispatch on it.\<close>

definition commands :: "bool \<Rightarrow> date \<Rightarrow> (pystr \<times> handler) list" where
  "commands pad today =
     [(lit ''add'', add_cmd),
      (lit ''change'', change_cmd),
      (lit ''phone'', phone_cmd pad),
      (lit ''all'', all_cmd pad),
      (lit ''add-birthday'', add_birthday_cmd),
      (lit ''show-birthday'', show_birthday_cmd pad),
      (lit ''birthdays'', birthdays_cmd pad today),
      (lit ''hello'', hello_cmd),
      (lit ''close'', goodbye_cmd),
      (lit ''exit'', goodbye_cmd)]"

definition handle_command ::
  "bool \<Rightarrow> date \<Rightarrow> pystr \<Rightarrow> pystr list \<Rightarrow> AddressBook \<Rightarrow> error + (pyret \<times> AddressBook)" where
  "handle_command pad today command args book =
     (case map_of (commands pad today) command of
        Some h \<Rightarrow> h args book
      | None \<Rightarrow> Inr (RStr (lit ''Unknown command''), book))"

section \<open>States of the book\<close>

text \<open>The invariant of the data model: every record is stored under its own name.\<close>

definition book_inv :: "AddressBook \<Rightarrow> bool" where
  "book_inv book = list_all (\<lambda>e. name_value (name (snd e)) = fst e) book"

text \<open>
  The calls that change a record, and the operations on a book. \<open>find\<close> and
  \<open>get_upcoming_birthdays\<close> only read \<open>self.data\<close>, so the book after them is the
  book before them. \<open>OnRecord n c\<close> is a method call on the record that \<open>find\<close>
  returns for \<open>n\<close>: the stored object itself is mutated, so the entry changes in place;
  a call that raises changes nothing.
\<close>

datatype record_call =
    AddPhone pystr
  | RemovePhone pystr
  | EditPhone pystr pystr
  | AddBirthday pystr

fun run_call :: "record_call \<Rightarrow> Record \<Rightarrow> error + Record" where
  "run_call (AddPhone p) r = add_phone p r"
| "run_call (RemovePhone p) r = Inr (remove_phone p r)"
| "run_call (EditPhone old_phone new_phone) r = edit_phone old_phone new_phone r"
| "run_call (AddBirthday b) r = add_birthday b r"

datatype book_op =
    AddRecord Record
  | Find pystr
  | Delete pystr
  | GetUpcomingBirthdays bool date
  | OnRecord pystr record_call

fun run_op :: "book_op \<Rightarrow> AddressBook \<Rightarrow> AddressBook" where
  "run_op (AddRecord r) book = add_record r book"
| "run_op (Find n) book = book"
| "run_op (Delete n) book = delete_record n book"
| "run_op (GetUpcomingBirthdays pad today) book = book"
| "run_op (OnRecord n c) book =
     (case find_record n book of
        None \<Rightarrow> book
      | Some r \<Rightarrow>
          (case run_call c r of
             Inl e \<Rightarrow> book
           | Inr r' \<Rightarrow> AList.update n r' book))"

text \<open>The books that the program can build, starting from the empty one.\<close>

inductive reachable :: "AddressBook \<Rightarrow> bool" where
  empty: "reachable []"
| step: "reachable book \<Longrightarrow> reachable (run_op op book)"

section \<open>Evaluation of concrete inputs\<close>

lemmas date_eval =
  Birthday_init_def strptime_def re_match_def lit_def re_day_def re_month_def in_range_def
  isdecimal_char_def decimal_value_def decimal_zeros_def group_int_def
  check_date_fields_def days_in_month_def is_leap_def Birthday_str_def strftime_def
  pad2_def pad4_def fmt_year_def str_nat.simps

lemmas digit_eval = isdigit_def isdigit_char_def in_ranges_def digit_ranges_def

section \<open>The upcoming birthdays\<close>

text \<open>
  The loop of \<open>get_upcoming_birthdays\<close> skips the records without a birthday. For a
  record with a birthday it evaluates \<open>birthday_this_year < today\<close> with a
  \<open>datetime\<close> on the left and a \<open>date\<close> on the right (unless \<open>replace\<close> has already
  raised for a 29 February), and this comparison raises. So the method returns a list
  only for a book in which no record has a birthday, and that list is empty.
\<close>

lemma upcoming_loop_no_birthday:
  "list_all (\<lambda>r. birthday r = None) rs \<Longrightarrow> upcoming_loop pad today rs acc = Inr acc"
  by (induction rs arbitrary: acc) simp_all

lemma upcoming_loop_raises:
  "list_ex (\<lambda>r. birthday r \<noteq> None) rs \<Longrightarrow> \<exists>e. upcoming_loop pad today rs acc = Inl e"
proof (induction rs arbitrary: acc)
  case Nil
  then show ?case by simp
next
  case (Cons r rs)
  show ?case
  proof (cases "birthday r")
    case None
    with Cons show ?thesis by simp
  next
    case (Some b)
    then show ?thesis by (simp split: sum.splits)
  qed
qed

lemma get_upcoming_birthdays_raises:
  "list_ex (\<lambda>e. birthday (snd e) \<noteq> None) book \<Longrightarrow>
     \<exists>e. get_upcoming_birthdays pad today book = Inl e"
proof -
  assume "list_ex (\<lambda>e. birthday (snd e) \<noteq> None) book"
  then have "list_ex (\<lambda>r. birthday r \<noteq> None) (map snd book)"
    by (simp add: list_ex_iff)
  then show ?thesis
    unfolding get_upcoming_birthdays_def by (rule upcoming_loop_raises)
qed

text \<open>
  Claim C1. The specification says that, with today = 10.06.2024, a contact whose
  birthday is 12.06.1990 is included with the computed date 12.06.2024. The string
  12.06.1990 is accepted as a birthday, and Alice with this birthday is built and stored
  by the program's own operations; on that book \<open>get_upcoming_birthdays\<close> returns no
  list at all: it raises the \<open>TypeError\<close> of comparing a \<open>datetime\<close> with a \<open>date\<close>.
\<close>

theorem get_upcoming_birthdays_in_window_raises:
  "Record_init (lit ''Alice'')
     = Inr \<lparr>name = Name (lit ''Alice''), phones = [], birthday = None\<rparr>
   \<and> add_birthday (lit ''12.06.1990'')
         \<lparr>name = Name (lit ''Alice''), phones = [], birthday = None\<rparr>
     = Inr \<lparr>name = Name (lit ''Alice''), phones = [],
            birthday = Some (Birthday (DateTime 1990 6 12))\<rparr>
   \<and> get_upcoming_birthdays pad (Date 2024 6 10)
         (add_record \<lparr>name = Name (lit ''Alice''), phones = [],
                      birthday = Some (Birthday (DateTime 1990 6 12))\<rparr> [])
     = Inl (TypeError cmp_error)"
  by (simp add: date_eval Record_init_def Name_init_def strip_def isspace_char_def
        in_ranges_def space_ranges_def add_birthday_def add_record_def
        get_upcoming_birthdays_def replace_year_def)

text \<open>
  Claim C2. The specification says that, with today = 10.06.2024, a birthday 05.06.1990
  rolls to 05.06.2025 and the contact is excluded from the returned list. On the code
  the occurrence of this year, 05.06.2024, is computed, and the test whether it lies
  before today raises the \<open>TypeError\<close>: nothing is rolled forward and no list is
  returned. The handler \<open>birthdays\<close> then answers with the message of that error
  instead of \<open>No upcoming birthdays\<close>.
\<close>

theorem get_upcoming_birthdays_passed_raises:
  "add_birthday (lit ''05.06.1990'')
         \<lparr>name = Name (lit ''Bob''), phones = [], birthday = None\<rparr>
     = Inr \<lparr>name = Name (lit ''Bob''), phones = [],
            birthday = Some (Birthday (DateTime 1990 6 5))\<rparr>
   \<and> replace_year (DateTime 1990 6 5) 2024 = Inr (DateTime 2024 6 5)
   \<and> get_upcoming_birthdays pad (Date 2024 6 10)
         (add_record \<lparr>name = Name (lit ''Bob''), phones = [],
                      birthday = Some (Birthday (DateTime 1990 6 5))\<rparr> [])
     = Inl (TypeError cmp_error)
   \<and> birthdays_cmd pad (Date 2024 6 10) []
         (add_record \<lparr>name = Name (lit ''Bob''), phones = [],
                      birthday = Some (Birthday (DateTime 1990 6 5))\<rparr> [])
     = Inr (RStr cmp_error,
            add_record \<lparr>name = Name (lit ''Bob''), phones = [],
                         birthday = Some (Birthday (DateTime 1990 6 5))\<rparr> [])"
  by (simp add: date_eval add_birthday_def add_record_def get_upcoming_birthdays_def
        replace_year_def birthdays_cmd_def input_error_def)

section \<open>The command table\<close>

text \<open>A decorated handler always returns; it never lets an exception escape.\<close>

lemma input_error_returns: "\<exists>res. input_error func args book = Inr res"
  by (simp add: input_error_def split: sum.splits)

text \<open>
  Claim C3. The specification says that every handler of the command table turns every
  error into a response string. The decorator \<open>input_error\<close> does this for
  \<open>add-birthday\<close>, \<open>show-birthday\<close> and \<open>birthdays\<close>; the other entries of the
  table are lambdas without the decorator. So \<open>add\<close> without an argument lets an
  \<open>IndexError\<close> escape from \<open>handle_command\<close>, and \<open>change\<close> for a contact that is
  not in the book lets an \<open>AttributeError\<close> escape.
\<close>

theorem undecorated_handlers_raise:
  "handle_command pad today (lit ''add'') [] book
     = Inl (IndexError (lit ''list index out of range''))
   \<and> handle_command pad today (lit ''change'')
         [lit ''Ghost'', lit ''0000000000'', lit ''1111111111''] []
     = Inl (AttributeError (quoted (lit ''NoneType'') @ lit '' object has no attribute ''
                              @ quoted (lit ''edit_phone'')))
   \<and> handle_command pad today (lit ''add-birthday'') [] book
     = Inr (RStr (lit ''Usage: add-birthday [name] [birthday]''), book)"
  by (simp add: handle_command_def commands_def lit_def add_cmd_def change_cmd_def arg_def
        find_record_def add_birthday_cmd_def input_error_def)

section \<open>Phones of a record\<close>

text \<open>
  Claim C4. The specification says that \<open>edit_phone\<close> validates the new value before
  it changes anything, so that a malformed new value raises and leaves the record as it
  was. \<open>add_phone\<close> validates through the constructor of \<open>Phone\<close>; \<open>edit_phone\<close>
  assigns to the attribute \<open>value\<close> directly. The string \<open>abc\<close>, which
  \<open>add_phone\<close> rejects, is therefore stored as the phone of the record by
  \<open>edit_phone\<close>.
\<close>

theorem edit_phone_stores_malformed:
  "add_phone (lit ''abc'')
         \<lparr>name = Name (lit ''Alice''), phones = [Phone (lit ''0000000000'')], birthday = None\<rparr>
     = Inl (ValueError (lit ''Phone number must be 10 digits.''))
   \<and> edit_phone (lit ''0000000000'') (lit ''abc'')
         \<lparr>name = Name (lit ''Alice''), phones = [Phone (lit ''0000000000'')], birthday = None\<rparr>
     = Inr \<lparr>name = Name (lit ''Alice''), phones = [Phone (lit ''abc'')], birthday = None\<rparr>"
  by (simp add: Phone_init_def add_phone_def edit_phone_def lit_def)

text \<open>
  What \<open>edit_phone\<close> does otherwise: without a phone equal to the old value it raises
  and the record stays as it was; with one, the first such phone gets the new value in
  place. In the example of the specification the second call with the same old value
  fails, since the only phone with that value has been replaced.
\<close>

lemma edit_loop_absent:
  "old_phone \<notin> phone_value ` set ps \<Longrightarrow> edit_loop old_phone new_phone ps = None"
  by (induction ps) auto

lemma edit_loop_first:
  "old_phone \<notin> phone_value ` set xs \<Longrightarrow>
     edit_loop old_phone new_phone (xs @ Phone old_phone # ys) = Some (xs @ Phone new_phone # ys)"
  by (induction xs) auto

lemma edit_phone_not_found:
  "old_phone \<notin> phone_value ` set (phones r) \<Longrightarrow>
     edit_phone old_phone new_phone r = Inl (ValueError (lit ''Old phone number not found.''))"
  by (simp add: edit_phone_def edit_loop_absent)

lemma edit_phone_replaces_first:
  "phones r = xs @ Phone old_phone # ys \<Longrightarrow> old_phone \<notin> phone_value ` set xs \<Longrightarrow>
     edit_phone old_phone new_phone r = Inr (r\<lparr>phones := xs @ Phone new_phone # ys\<rparr>)"
  by (simp add: edit_phone_def edit_loop_first)

lemma edit_phone_again_fails:
  "edit_phone (lit ''0000000000'') (lit ''1111111111'')
       \<lparr>name = Name (lit ''Alice''), phones = [Phone (lit ''0000000000'')], birthday = None\<rparr>
     = Inr \<lparr>name = Name (lit ''Alice''), phones = [Phone (lit ''1111111111'')], birthday = None\<rparr>
   \<and> edit_phone (lit ''0000000000'') (lit ''1111111111'')
       \<lparr>name = Name (lit ''Alice''), phones = [Phone (lit ''1111111111'')], birthday = None\<rparr>
     = Inl (ValueError (lit ''Old phone number not found.''))"
  by (simp add: edit_phone_def lit_def)

lemma add_phone_frame:
  "add_phone p r = Inr r' \<Longrightarrow> name r' = name r \<and> birthday r' = birthday r"
  by (auto simp: add_phone_def split: sum.splits)

lemma edit_phone_frame:
  "edit_phone old_phone new_phone r = Inr r' \<Longrightarrow> name r' = name r \<and> birthday r' = birthday r"
  by (auto simp: edit_phone_def split: option.splits)

lemma remove_phone_frame:
  "name (remove_phone p r) = name r \<and> birthday (remove_phone p r) = birthday r"
  by (simp add: remove_phone_def)

lemma add_birthday_name: "add_birthday b r = Inr r' \<Longrightarrow> name r' = name r"
  by (auto simp: add_birthday_def split: sum.splits)

lemma run_call_name: "run_call c r = Inr r' \<Longrightarrow> name r' = name r"
  by (cases c)
     (auto dest: add_phone_frame edit_phone_frame add_birthday_name simp: remove_phone_frame)

lemma count_list_filter: "count_list (filter P xs) x = (if P x then count_list xs x else 0)"
  by (induction xs) auto

text \<open>
  Claim C9. \<open>add_phone\<close>, \<open>remove_phone\<close> and \<open>edit_phone\<close> leave the name and the
  birthday of the record as they were (a call that raises changes nothing at all), and
  \<open>remove_phone\<close> keeps the remaining phones in their order: the new list is a
  subsequence of the old one, every phone with another value occurs as often as before,
  and no phone with the removed value is left.
\<close>

theorem phone_ops_frame:
  "(\<forall>r'. add_phone p r = Inr r' \<longrightarrow> name r' = name r \<and> birthday r' = birthday r)
   \<and> (\<forall>r'. edit_phone old_phone new_phone r = Inr r' \<longrightarrow>
          name r' = name r \<and> birthday r' = birthday r)
   \<and> name (remove_phone p r) = name r \<and> birthday (remove_phone p r) = birthday r
   \<and> subseq (phones (remove_phone p r)) (phones r)
   \<and> (\<forall>q. count_list (phones (remove_phone p r)) q
           = (if phone_value q = p then 0 else count_list (phones r) q))"
  using add_phone_frame edit_phone_frame
  by (auto simp: remove_phone_def count_list_filter)

theorem phone_ops_frame_witness:
  "add_phone (lit ''1111111111'')
       \<lparr>name = Name (lit ''Alice''), phones = [Phone (lit ''0000000000'')], birthday = None\<rparr>
     = Inr \<lparr>name = Name (lit ''Alice''),
            phones = [Phone (lit ''0000000000''), Phone (lit ''1111111111'')],
            birthday = None\<rparr>
   \<and> name \<lparr>name = Name (lit ''Alice''),
            phones = [Phone (lit ''0000000000''), Phone (lit ''1111111111'')],
            birthday = None\<rparr>
     = name \<lparr>name = Name (lit ''Alice''), phones = [Phone (lit ''0000000000'')],
              birthday = None\<rparr>
   \<and> edit_phone (lit ''0000000000'') (lit ''2222222222'')
       \<lparr>name = Name (lit ''Alice''), phones = [Phone (lit ''0000000000'')], birthday = None\<rparr>
     = Inr \<lparr>name = Name (lit ''Alice''), phones = [Phone (lit ''2222222222'')],
            birthday = None\<rparr>
   \<and> birthday \<lparr>name = Name (lit ''Alice''), phones = [Phone (lit ''2222222222'')],
                birthday = None\<rparr>
     = birthday \<lparr>name = Name (lit ''Alice''), phones = [Phone (lit ''0000000000'')],
                  birthday = None\<rparr>"
proof -
  let ?r = "\<lparr>name = Name (lit ''Alice''), phones = [Phone (lit ''0000000000'')],
              birthday = None\<rparr>"
  let ?r1 = "\<lparr>name = Name (lit ''Alice''),
               phones = [Phone (lit ''0000000000''), Phone (lit ''1111111111'')],
               birthday = None\<rparr>"
  let ?r2 = "\<lparr>name = Name (lit ''Alice''), phones = [Phone (lit ''2222222222'')],
               birthday = None\<rparr>"
  have digits: "isdigit (lit ''1111111111'')"
    by (simp add: digit_eval lit_def)
  have len: "length (lit ''1111111111'') = 10"
    by (simp add: lit_def)
  have a: "add_phone (lit ''1111111111'') ?r = Inr ?r1"
    using digits len by (simp add: add_phone_def Phone_init_def)
  have e: "edit_phone (lit ''0000000000'') (lit ''2222222222'') ?r = Inr ?r2"
    by (simp add: edit_phone_def)
  note frame = phone_ops_frame [of "lit ''1111111111''" ?r "lit ''0000000000''"
      "lit ''2222222222''"]
  from frame a have 1: "name ?r1 = name ?r" by blast
  from frame e have 2: "birthday ?r2 = birthday ?r" by blast
  from a 1 e 2 show ?thesis by blast
qed

section \<open>Validation of fields\<close>

lemma ascii_digit_isdigit_char: "in_range 48 57 c \<Longrightarrow> isdigit_char c"
  by (simp add: in_range_def isdigit_char_def in_ranges_def digit_ranges_def)

lemma ascii_digits_isdigit_chars: "list_all (in_range 48 57) v \<Longrightarrow> list_all isdigit_char v"
  by (induction v) (simp_all add: ascii_digit_isdigit_char)

lemma arabic_indic_zero_isdigit: "isdigit_char 1632"
  by (simp add: isdigit_char_def in_ranges_def digit_ranges_def)

text \<open>
  Claim C5, as amended. \<open>Phone(value)\<close> succeeds if and only if \<open>value\<close> has exactly
  ten characters and each of them is a digit in the sense of \<open>str.isdigit\<close>; the value
  is then stored verbatim. Every string of exactly ten ASCII digits is such a string.
  Every other string is rejected with the \<open>ValueError\<close> of the constructor. The digits
  of \<open>str.isdigit\<close> are more than the ASCII digits, so a string of ten non-ASCII
  digits is accepted, where the specification says that it is rejected.
\<close>

theorem Phone_init_accepts_ten_digits:
  "(Phone_init v = Inr (Phone v) \<longleftrightarrow> length v = 10 \<and> list_all isdigit_char v)
   \<and> (length v = 10 \<and> list_all (in_range 48 57) v \<longrightarrow> Phone_init v = Inr (Phone v))
   \<and> (\<not> (length v = 10 \<and> list_all isdigit_char v) \<longrightarrow>
         Phone_init v = Inl (ValueError (lit ''Phone number must be 10 digits.'')))
   \<and> (\<forall>p. Phone_init v = Inr p \<longrightarrow> phone_value p = v)"
proof -
  have ne: "length v = 10 \<Longrightarrow> v \<noteq> []" by auto
  have iff: "Phone_init v = Inr (Phone v) \<longleftrightarrow> length v = 10 \<and> list_all isdigit_char v"
    using ne by (auto simp: Phone_init_def isdigit_def)
  have ascii: "length v = 10 \<and> list_all (in_range 48 57) v \<longrightarrow> Phone_init v = Inr (Phone v)"
    using iff ascii_digits_isdigit_chars by blast
  have rej: "\<not> (length v = 10 \<and> list_all isdigit_char v) \<longrightarrow>
         Phone_init v = Inl (ValueError (lit ''Phone number must be 10 digits.''))"
    by (auto simp: Phone_init_def isdigit_def)
  have verb: "\<forall>p. Phone_init v = Inr p \<longrightarrow> phone_value p = v"
    by (auto simp: Phone_init_def split: if_splits)
  from iff ascii rej verb show ?thesis by blast
qed

theorem Phone_init_accepts_ten_digits_witness:
  "length (lit ''0123456789'') = 10 \<and> list_all (in_range 48 57) (lit ''0123456789'')
   \<and> Phone_init (lit ''0123456789'') = Inr (Phone (lit ''0123456789''))
   \<and> phone_value (Phone (lit ''0123456789'')) = lit ''0123456789''
   \<and> \<not> (length (lit ''12345'') = 10 \<and> list_all isdigit_char (lit ''12345''))
   \<and> Phone_init (lit ''12345'') = Inl (ValueError (lit ''Phone number must be 10 digits.''))"
proof -
  have len: "length (lit ''0123456789'') = 10" by (simp add: lit_def)
  have asc: "list_all (in_range 48 57) (lit ''0123456789'')"
    by (simp add: lit_def in_range_def)
  have short: "\<not> (length (lit ''12345'') = 10 \<and> list_all isdigit_char (lit ''12345''))"
    by (simp add: lit_def)
  note ok = Phone_init_accepts_ten_digits [of "lit ''0123456789''"]
  note bad = Phone_init_accepts_ten_digits [of "lit ''12345''"]
  from ok len asc have acc: "Phone_init (lit ''0123456789'') = Inr (Phone (lit ''0123456789''))"
    by blast
  from ok acc have verb: "phone_value (Phone (lit ''0123456789'')) = lit ''0123456789''"
    by blast
  from bad short
  have rej: "Phone_init (lit ''12345'') = Inl (ValueError (lit ''Phone number must be 10 digits.''))"
    by blast
  from len asc acc verb short rej show ?thesis by blast
qed

theorem Phone_init_non_ascii_counterexample:
  "Phone_init [1632, 1632, 1632, 1632, 1632, 1632, 1632, 1632, 1632, 1632]
     = Inr (Phone [1632, 1632, 1632, 1632, 1632, 1632, 1632, 1632, 1632, 1632])
   \<and> \<not> list_all (in_range 48 57) [1632, 1632, 1632, 1632, 1632, 1632, 1632, 1632, 1632, 1632]"
  by (simp add: Phone_init_def isdigit_def arabic_indic_zero_isdigit in_range_def)

section \<open>Entries of the book\<close>

lemma filter_absent_key: "k \<notin> fst ` set al \<Longrightarrow> filter (\<lambda>e. fst e = k) al = []"
  by (induction al) auto

lemma filter_update_key:
  "distinct (map fst al) \<Longrightarrow> filter (\<lambda>e. fst e = k) (AList.update k v al) = [(k, v)]"
proof (induction al)
  case Nil
  then show ?case by simp
next
  case (Cons a al)
  have "fst a \<noteq> k \<Longrightarrow> filter (\<lambda>e. fst e = k) (AList.update k v al) = [(k, v)]"
    using Cons by simp
  moreover have "fst a = k \<Longrightarrow> filter (\<lambda>e. fst e = k) al = []"
    using Cons.prems by (simp add: filter_absent_key)
  ultimately show ?case by auto
qed

text \<open>
  Claim C7. \<open>add_record\<close> stores the record under its name and cannot fail. After two
  calls with records of the same name the book is the one that the second call alone
  would have produced: the name is looked up to the second record, the book has exactly
  one entry for that name, and the entries of other names are untouched. The phones of
  the first record are therefore no longer found under the name.
\<close>

theorem add_record_overwrites:
  assumes "name r1 = name r2" and "distinct (map fst book)"
  shows "add_record r2 (add_record r1 book) = add_record r2 book
    \<and> find_record (name_value (name r2)) (add_record r2 (add_record r1 book)) = Some r2
    \<and> filter (\<lambda>e. fst e = name_value (name r2)) (add_record r2 (add_record r1 book))
        = [(name_value (name r2), r2)]
    \<and> (\<forall>k. k \<noteq> name_value (name r2) \<longrightarrow>
          find_record k (add_record r2 (add_record r1 book)) = find_record k book)"
  using assms by (simp add: add_record_def find_record_def update_conv' filter_update_key)

theorem add_record_overwrites_witness:
  "name \<lparr>name = Name (lit ''Alice''), phones = [Phone (lit ''0000000000'')], birthday = None\<rparr>
     = name \<lparr>name = Name (lit ''Alice''), phones = [], birthday = None\<rparr>
   \<and> distinct (map fst ([] :: AddressBook))
   \<and> find_record (lit ''Alice'')
        (add_record \<lparr>name = Name (lit ''Alice''), phones = [], birthday = None\<rparr>
          (add_record \<lparr>name = Name (lit ''Alice''), phones = [Phone (lit ''0000000000'')],
                         birthday = None\<rparr> []))
       = Some \<lparr>name = Name (lit ''Alice''), phones = [], birthday = None\<rparr>
   \<and> add_record \<lparr>name = Name (lit ''Alice''), phones = [], birthday = None\<rparr>
          (add_record \<lparr>name = Name (lit ''Alice''), phones = [Phone (lit ''0000000000'')],
                         birthday = None\<rparr> [])
       = [(lit ''Alice'', \<lparr>name = Name (lit ''Alice''), phones = [], birthday = None\<rparr>)]"
proof -
  let ?r1 = "\<lparr>name = Name (lit ''Alice''), phones = [Phone (lit ''0000000000'')],
               birthday = None\<rparr>"
  let ?r2 = "\<lparr>name = Name (lit ''Alice''), phones = [], birthday = None\<rparr>"
  have n: "name ?r1 = name ?r2" by simp
  have d: "distinct (map fst ([] :: AddressBook))" by simp
  have nv: "name_value (name ?r2) = lit ''Alice''" by simp
  have single: "add_record ?r2 [] = [(lit ''Alice'', ?r2)]" by (simp add: add_record_def)
  note over = add_record_overwrites [OF n d]
  from over [THEN conjunct2, THEN conjunct1] nv
  have f: "find_record (lit ''Alice'') (add_record ?r2 (add_record ?r1 [])) = Some ?r2"
    by simp
  from over [THEN conjunct1] single
  have b: "add_record ?r2 (add_record ?r1 []) = [(lit ''Alice'', ?r2)]"
    by simp
  from n d f b show ?thesis by blast
qed

lemma book_inv_update:
  "book_inv book \<Longrightarrow> name_value (name r) = k \<Longrightarrow> book_inv (AList.update k r book)"
  by (induction book) (auto simp: book_inv_def)

lemma book_inv_delete: "book_inv book \<Longrightarrow> book_inv (AList.delete k book)"
  by (induction book) (auto simp: book_inv_def)

lemma book_inv_lookup: "book_inv book \<Longrightarrow> map_of book k = Some r \<Longrightarrow> name_value (name r) = k"
  by (induction book) (auto simp: book_inv_def split: if_splits)

lemma book_inv_run_op: "book_inv book \<Longrightarrow> book_inv (run_op op book)"
proof (cases op)
  case (AddRecord r)
  assume "book_inv book"
  then show ?thesis using AddRecord by (simp add: add_record_def book_inv_update)
next
  case (Delete n)
  assume "book_inv book"
  then show ?thesis using Delete by (simp add: delete_record_def book_inv_delete)
next
  case (OnRecord n c)
  assume inv: "book_inv book"
  show ?thesis
  proof (cases "find_record n book")
    case None
    with inv OnRecord show ?thesis by simp
  next
    case (Some r)
    then have nm: "name_value (name r) = n"
      using inv by (simp add: find_record_def book_inv_lookup)
    show ?thesis
    proof (cases "run_call c r")
      case (Inl e)
      with inv OnRecord Some show ?thesis by simp
    next
      case (Inr r')
      then have "name r' = name r" by (rule run_call_name)
      with nm have "name_value (name r') = n" by simp
      with inv have "book_inv (AList.update n r' book)" by (rule book_inv_update)
      with OnRecord Some Inr show ?thesis by simp
    qed
  qed
qed simp_all

lemma reachable_inv: "reachable book \<Longrightarrow> book_inv book"
proof (induction rule: reachable.induct)
  case empty
  show ?case by (simp add: book_inv_def)
next
  case (step book op)
  then show ?case by (simp add: book_inv_run_op)
qed

lemma distinct_run_op: "distinct (map fst book) \<Longrightarrow> distinct (map fst (run_op op book))"
  by (cases op)
     (auto simp: add_record_def delete_record_def distinct_update distinct_delete
           split: option.splits sum.splits)

lemma reachable_distinct: "reachable book \<Longrightarrow> distinct (map fst book)"
  by (induction rule: reachable.induct) (simp_all add: distinct_run_op)

text \<open>
  Claim C8. In every book that the program can reach from the empty one, each record is
  stored under its own name, and every operation keeps it so: \<open>add_record\<close>,
  \<open>find\<close>, \<open>delete\<close>, \<open>get_upcoming_birthdays\<close>, and also the method calls on a
  stored record, none of which changes the name.
\<close>

theorem book_invariant:
  "(reachable book \<longrightarrow> book_inv book) \<and> (book_inv book \<longrightarrow> book_inv (run_op op book))"
  by (simp add: reachable_inv book_inv_run_op)

theorem book_invariant_witness:
  "reachable [(lit ''Alice'', \<lparr>name = Name (lit ''Alice''), phones = [], birthday = None\<rparr>)]
   \<and> book_inv [(lit ''Alice'', \<lparr>name = Name (lit ''Alice''), phones = [], birthday = None\<rparr>)]
   \<and> book_inv (run_op (Delete (lit ''Bob''))
        [(lit ''Alice'', \<lparr>name = Name (lit ''Alice''), phones = [], birthday = None\<rparr>)])"
proof -
  let ?r = "\<lparr>name = Name (lit ''Alice''), phones = [], birthday = None\<rparr>"
  have "reachable (run_op (AddRecord ?r) [])"
    by (rule reachable.step [OF reachable.empty])
  then have r: "reachable [(lit ''Alice'', ?r)]"
    by (simp add: add_record_def)
  note inv = book_invariant [of "[(lit ''Alice'', ?r)]" "Delete (lit ''Bob'')"]
  from inv r have i: "book_inv [(lit ''Alice'', ?r)]" by blast
  from inv i have p: "book_inv (run_op (Delete (lit ''Bob'')) [(lit ''Alice'', ?r)])" by blast
  from r i p show ?thesis by blast
qed

section \<open>Round trip of birthdays\<close>

lemma str_nat_lt10: "n < 10 \<Longrightarrow> str_nat n = [48 + n]"
  by (simp add: str_nat.simps)

lemma str_nat_lt100: "10 \<le> n \<Longrightarrow> n < 100 \<Longrightarrow> str_nat n = [48 + n div 10, 48 + n mod 10]"
  by (subst str_nat.simps) (simp add: str_nat_lt10)

lemma str_nat_lt1000:
  "100 \<le> n \<Longrightarrow> n < 1000 \<Longrightarrow> str_nat n = [48 + n div 100, 48 + n div 10 mod 10, 48 + n mod 10]"
  by (subst str_nat.simps) (simp add: str_nat_lt100 div_mult2_eq [symmetric])

lemma str_nat_lt10000:
  "1000 \<le> n \<Longrightarrow> n < 10000 \<Longrightarrow>
     str_nat n = [48 + n div 1000, 48 + n div 100 mod 10, 48 + n div 10 mod 10, 48 + n mod 10]"
  by (subst str_nat.simps) (simp add: str_nat_lt1000 div_mult2_eq [symmetric])


lemma replicate_small: "replicate 3 x = [x, x, x]" "replicate 2 x = [x, x]"
  by (simp_all add: numeral_3_eq_3 numeral_2_eq_2)

lemma pad4_digits:
  assumes "y < 10000"
  shows "pad4 y = [48 + y div 1000, 48 + y div 100 mod 10, 48 + y div 10 mod 10, 48 + y mod 10]"
proof -
  consider "y < 10" | "10 \<le> y" "y < 100" | "100 \<le> y" "y < 1000" | "1000 \<le> y"
    by linarith
  then show ?thesis
  proof cases
    case 1
    then show ?thesis by (simp add: pad4_def str_nat_lt10 replicate_small)
  next
    case 2
    then show ?thesis by (simp add: pad4_def str_nat_lt100 replicate_small)
  next
    case 3
    then show ?thesis by (simp add: pad4_def str_nat_lt1000)
  next
    case 4
    with assms show ?thesis by (simp add: pad4_def str_nat_lt10000)
  qed
qed

lemma fmt_year_pad4: "1 \<le> y \<Longrightarrow> y \<le> 9999 \<Longrightarrow> pad \<or> 1000 \<le> y \<Longrightarrow> fmt_year pad y = pad4 y"
  by (auto simp: fmt_year_def pad4_def str_nat_lt10000)











lemma days_in_month_le: "days_in_month y m \<le> 31"
  by (simp add: days_in_month_def)

lemma check_date_fields_NoneD:
  "check_date_fields y m d = None \<Longrightarrow>
     1 \<le> y \<and> y \<le> 9999 \<and> 1 \<le> m \<and> m \<le> 12 \<and> 1 \<le> d \<and> d \<le> 31"
  using days_in_month_le [of y m]
  by (auto simp: check_date_fields_def split: if_splits)



lemma Birthday_str_padded:
  assumes "check_date_fields y m d = None" and "pad \<or> 1000 \<le> y"
  shows "Birthday_str pad (Birthday (DateTime y m d)) = pad2 d @ [46] @ pad2 m @ [46] @ pad4 y"
proof -
  from assms(1) have "1 \<le> y" "y \<le> 9999"
    using check_date_fields_NoneD by blast+
  with assms(2) show ?thesis
    by (simp add: Birthday_str_def strftime_def fmt_year_pad4)
qed










lemma length_str_nat_lt1000: "y < 1000 \<Longrightarrow> length (str_nat y) < 4"
proof -
  assume a: "y < 1000"
  consider "y < 10" | "10 \<le> y" "y < 100" | "100 \<le> y" "y < 1000"
    using a by linarith
  then show ?thesis
    by cases (simp_all add: str_nat_lt10 str_nat_lt100 str_nat_lt1000)
qed

lemma Birthday_str_padded_iff:
  assumes "check_date_fields y m d = None"
  shows "Birthday_str pad (Birthday (DateTime y m d)) = pad2 d @ [46] @ pad2 m @ [46] @ pad4 y
           \<longleftrightarrow> pad \<or> 1000 \<le> y"
proof
  assume "pad \<or> 1000 \<le> y"
  with assms show "Birthday_str pad (Birthday (DateTime y m d))
                     = pad2 d @ [46] @ pad2 m @ [46] @ pad4 y"
    by (rule Birthday_str_padded)
next
  assume eq: "Birthday_str pad (Birthday (DateTime y m d))
                = pad2 d @ [46] @ pad2 m @ [46] @ pad4 y"
  show "pad \<or> 1000 \<le> y"
  proof (rule ccontr)
    assume "\<not> (pad \<or> 1000 \<le> y)"
    then have np: "\<not> pad" and small: "y < 1000" by simp_all
    from eq np have "str_nat y = pad4 y"
      by (simp add: Birthday_str_def strftime_def fmt_year_def)
    then have "length (str_nat y) = length (pad4 y)" by simp
    moreover from small have "length (pad4 y) = 4" by (simp add: pad4_digits)
    ultimately show False using length_str_nat_lt1000 [OF small] by simp
  qed
qed

text \<open>
  Claim C6. The specification says that every valid date written as \<open>DD.MM.YYYY\<close>
  parses and renders back to the identical string. \<open>__str__\<close> uses the format
  \<open>%d.%m.%Y\<close> of the constructor and so attempts exactly this, but \<open>%Y\<close> is left to
  the C library, and glibc (\<open>pad = False\<close>) prints a year below 1000 without leading
  zeros. The valid date \<open>01.01.0999\<close> is accepted and rendered as \<open>01.01.999\<close>: a
  different string, which the constructor itself rejects with its message
  \<open>Use DD.MM.YYYY\<close>. By \<open>Birthday_str_padded_iff\<close> the round trip fails in this way
  for every valid date with a year below 1000 on such a platform, and holds for every
  other valid date.
\<close>

theorem Birthday_roundtrip_fails_below_1000:
  "Birthday_init (lit ''01.01.0999'') = Inr (Birthday (DateTime 999 1 1))
   \<and> Birthday_str False (Birthday (DateTime 999 1 1)) = lit ''01.01.999''
   \<and> lit ''01.01.999'' \<noteq> lit ''01.01.0999''
   \<and> Birthday_init (lit ''01.01.999'')
       = Inl (ValueError (lit ''Invalid date format. Use DD.MM.YYYY''))"
  by (simp add: date_eval)




end
